theory Spec2Isabelle
  imports Main "HOL-Library.Sublist"
begin

section \<open>The ONNX model generator: the \<open>/generate\<close> request handler of \<open>main.py\<close>\<close>

text \<open>
  The handler \<open>generate_model\<close> validates the parameters of a request, runs the external
  model builder as a subprocess inside a scoped temporary directory, and sends the zipped
  output back. Everything the handler asks of its surroundings (Flask's request object, the
  process environment, \<open>tempfile\<close>, \<open>subprocess\<close>, \<open>shutil\<close>, \<open>send_file\<close>) is a field of
  an \<open>environment\<close> record; the file system is explicit state, and every call that acts on
  the outside world is appended to a trace.
\<close>

subsection \<open>Values of the request body\<close>

text \<open>
  What \<open>request.get_json()\<close> can return. A JSON number is kept as an integer: the handler
  only ever tests a number for truth and compares it with strings, and there a non-integral
  number behaves like a non-zero integer. \<open>JObj\<close> is the dictionary the parser built, one
  binding for each key.
\<close>

datatype json =
    JNull
  | JBool bool
  | JNum int
  | JStr string
  | JArr "json list"
  | JObj "(string \<times> json) list"

text \<open>Python's truth value, as \<open>not model_name\<close> and \<open>if hf_token\<close> test it.\<close>

fun truthy :: "json \<Rightarrow> bool" where
  "truthy JNull = False"
| "truthy (JBool b) = b"
| "truthy (JNum n) = (n \<noteq> 0)"
| "truthy (JStr s) = (s \<noteq> [])"
| "truthy (JArr xs) = (xs \<noteq> [])"
| "truthy (JObj kv) = (kv \<noteq> [])"

text \<open>\<open>params.get(key, default)\<close>; \<open>params.get(key)\<close> is \<open>dict_get kv key JNull\<close>.\<close>

definition dict_get :: "(string \<times> json) list \<Rightarrow> string \<Rightarrow> json \<Rightarrow> json" where
  "dict_get kv k d = (case map_of kv k of Some v \<Rightarrow> v | None \<Rightarrow> d)"

text \<open>
  Flask's request, as far as the handler reads it: \<open>request.is_json\<close> (the content type
  is a JSON one) and \<open>request.get_json()\<close>, which raises \<open>BadRequest\<close> (\<open>Inl\<close>, with the
  exception's text) when the body does not parse.
\<close>

record request =
  is_json :: bool
  get_json :: "string + json"

subsection \<open>Configuration\<close>

definition SUPPORTED_PRECISIONS :: "string list" where
  "SUPPORTED_PRECISIONS = [''fp16'', ''fp32'', ''int4'', ''int8'']"

definition SUPPORTED_EXECUTION_PROVIDERS :: "string list" where
  "SUPPORTED_EXECUTION_PROVIDERS =
     [''cpu'', ''cuda'', ''rocm'', ''dml'', ''webgpu'', ''NvTensorRtRtx'']"

definition TEMP_DIR :: string where
  "TEMP_DIR = ''/app/tmp''"

definition VALID_COMBINATIONS :: "(string \<times> string) list" where
  "VALID_COMBINATIONS =
     [(''fp32'', ''cpu''), (''fp32'', ''cuda''),
      (''fp16'', ''cuda''), (''fp16'', ''dml''), (''fp16'', ''NvTensorRtRtx''),
      (''bf16'', ''cuda''),
      (''int4'', ''cpu''), (''int4'', ''cuda''), (''int4'', ''dml''), (''int4'', ''webgpu'')]"

text \<open>
  \<open>x in xs\<close> for a list of strings, and for a list of pairs of strings: a value of the
  request equals a string only if it is that string.
\<close>

definition py_in :: "json \<Rightarrow> string list \<Rightarrow> bool" where
  "py_in v xs = (v \<in> set (map JStr xs))"

definition py_pair_in :: "json \<times> json \<Rightarrow> (string \<times> string) list \<Rightarrow> bool" where
  "py_pair_in v xs = (v \<in> set (map (\<lambda>(a, b). (JStr a, JStr b)) xs))"

subsection \<open>Responses and exceptions\<close>

text \<open>
  The exceptions that reach the handler's outer \<open>except Exception\<close>: \<open>BadRequest\<close> from
  \<open>get_json\<close>, \<open>AttributeError\<close> when the body is not a dictionary (\<open>params.get\<close>),
  \<open>TypeError\<close> when a value that must be a string is not (\<open>' '.join(command)\<close>, an
  environment value handed to \<open>subprocess.run\<close>), \<open>UnicodeDecodeError\<close> when the output
  of the child is not text (\<open>text=True\<close>), \<open>NotADirectoryError\<close> from \<open>os.listdir\<close>, and
  whatever else the surroundings raise, with its text.
\<close>

datatype exn =
    BadRequest string
  | AttributeError json
  | TypeError json
  | UnicodeDecodeError string
  | NotADirectoryError string
  | OtherError string

text \<open>
  The value of the \<open>"error"\<close> field. A message that is a literal of the source, or a
  literal followed by the text of an exception, is \<open>Text\<close>. The three messages of the
  validation that interpolate request values keep those values:
  \<^item> \<open>UnsupportedPrecision v\<close> is \<open>f"Unsupported precision: {v}. Supported: {SUPPORTED_PRECISIONS}"\<close>;
  \<^item> \<open>UnsupportedExecutionProvider v\<close> is
    \<open>f"Unsupported execution_provider: {v}. Supported: {SUPPORTED_EXECUTION_PROVIDERS}"\<close>;
  \<^item> \<open>InvalidCombination p e\<close> is
    \<open>f"Invalid combination: {p} + {e}. Valid combinations: {VALID_COMBINATIONS}"\<close>;
  \<^item> \<open>InternalServerError x\<close> is \<open>f"Internal server error: {str(x)}"\<close>.
\<close>

datatype message =
    Text string
  | UnsupportedPrecision json
  | UnsupportedExecutionProvider json
  | InvalidCombination json json
  | InternalServerError exn

text \<open>
  \<open>Error m\<close> is \<open>jsonify({"error": m})\<close>; \<open>ErrorDetails m err out\<close> is
  \<open>jsonify({"error": m, "details": err, "stdout": out})\<close>.
\<close>

datatype body =
    Error message
  | ErrorDetails message string string

text \<open>
  \<open>Json b code\<close> is \<open>return jsonify(...), code\<close>; \<open>Attachment path name mimetype\<close> is
  \<open>return send_file(path, as_attachment=True, download_name=name, mimetype=mimetype)\<close>,
  which Flask answers with status 200.
\<close>

datatype response =
    Json body nat
  | Attachment string string string

fun status :: "response \<Rightarrow> nat" where
  "status (Json b code) = code"
| "status (Attachment path name mimetype) = 200"

text \<open>How a block of the handler ends: it returns a response, raises, or falls through.\<close>

datatype 'a flow =
    Return response
  | Raise exn
  | Continue 'a

subsection \<open>Validation (lines 44 to 73)\<close>

definition validate :: "request \<Rightarrow> (json \<times> json \<times> json \<times> json) flow" where
  "validate req =
     (if \<not> is_json req then
        Return (Json (Error (Text ''Content-Type must be application/json'')) 400)
      else
        case get_json req of
          Inl msg \<Rightarrow> Raise (BadRequest msg)
        | Inr params \<Rightarrow>
            (case params of
               JObj kv \<Rightarrow>
                 (let model_name = dict_get kv ''model'' JNull;
                      precision = dict_get kv ''precision'' (JStr ''fp32'');
                      execution_provider = dict_get kv ''execution_provider'' (JStr ''cpu'');
                      hf_token = dict_get kv ''token'' JNull
                  in if \<not> truthy model_name then
                       Return (Json (Error (Text ''model parameter is required'')) 400)
                     else if \<not> py_in precision SUPPORTED_PRECISIONS then
                       Return (Json (Error (UnsupportedPrecision precision)) 400)
                     else if \<not> py_in execution_provider SUPPORTED_EXECUTION_PROVIDERS then
                       Return (Json (Error (UnsupportedExecutionProvider execution_provider)) 400)
                     else if \<not> py_pair_in (precision, execution_provider) VALID_COMBINATIONS then
                       Return (Json (Error (InvalidCombination precision execution_provider)) 400)
                     else Continue (model_name, precision, execution_provider, hf_token))
             | _ \<Rightarrow> Raise (AttributeError params)))"

subsection \<open>The file system, the surroundings and the trace\<close>

datatype node = File | Dir

type_synonym filesystem = "(string \<times> node) list"

definition path_exists :: "filesystem \<Rightarrow> string \<Rightarrow> bool" where
  "path_exists f p = (map_of f p \<noteq> None)"

text \<open>\<open>posixpath.join\<close> of two components.\<close>

definition os_path_join :: "string \<Rightarrow> string \<Rightarrow> string" where
  "os_path_join a b =
     (if b \<noteq> [] \<and> hd b = CHR ''/'' then b
      else if a = [] \<or> last a = CHR ''/'' then a @ b
      else a @ ''/'' @ b)"

definition with_slash :: "string \<Rightarrow> string" where
  "with_slash d = (if d \<noteq> [] \<and> last d = CHR ''/'' then d else d @ ''/'')"

text \<open>\<open>within d p\<close>: the path \<open>p\<close> is the directory \<open>d\<close> or lies below it.\<close>

definition within :: "string \<Rightarrow> string \<Rightarrow> bool" where
  "within d p = (p = d \<or> prefix (with_slash d) p)"

definition is_entry :: "string \<Rightarrow> string \<Rightarrow> bool" where
  "is_entry d p =
     (prefix (with_slash d) p \<and>
      (let n = drop (length (with_slash d)) p in n \<noteq> [] \<and> CHR ''/'' \<notin> set n))"

text \<open>\<open>os.listdir\<close>: the entries of a directory; it raises on a file and on a missing path.\<close>

definition listdir :: "filesystem \<Rightarrow> string \<Rightarrow> exn + string list" where
  "listdir f p =
     (case map_of f p of
        None \<Rightarrow> Inl (OtherError ''No such file or directory'')
      | Some File \<Rightarrow> Inl (NotADirectoryError p)
      | Some Dir \<Rightarrow> Inr (filter (is_entry p) (map fst f)))"

text \<open>
  What leaving the \<open>with tempfile.TemporaryDirectory(...)\<close> block does to the disk when the
  removal succeeds.
\<close>

definition rmtree :: "string \<Rightarrow> filesystem \<Rightarrow> filesystem" where
  "rmtree d f = filter (\<lambda>(p, k). \<not> within d p) f"

text \<open>
  How the child of \<open>subprocess.run(command, capture_output=True, timeout=..., env=...)\<close>
  ends: it exits with a return code, having written some bytes to its standard output and
  some to its standard error (\<open>Exited returncode stdout stderr\<close>); or the deadline passes
  (\<open>TimeoutExpired\<close>, after the child itself is killed and reaped; what the child started
  may live on); or the call raises something else (the interpreter is missing, an argument
  holds a null byte).
\<close>

datatype outcome =
    Exited int string string
  | TimedOut
  | Failed string

text \<open>
  The surroundings. \<open>mkdtemp dir f\<close> is the directory \<open>tempfile.TemporaryDirectory(dir=dir)\<close>
  creates, or the text of the exception it raises. \<open>subprocess_run command env timeout f\<close>
  gives the outcome of the child and the file system it leaves.
  \<open>make_archive base_name format root_dir f\<close> raises (\<open>Inl\<close>, with the exception's text) or
  returns, and gives the file system it leaves. \<open>send_file path f\<close> is \<open>Some\<close> text of the
  exception when Flask's \<open>send_file\<close> raises.

  \<open>decode bytes\<close> is the text that \<open>text=True\<close> makes of the bytes a child wrote (decoded in
  the encoding of the locale, line ends translated), and \<open>None\<close> when the bytes do not
  decode: \<open>subprocess.run\<close> then raises \<open>UnicodeDecodeError\<close>.

  \<open>cleanup_error d f\<close> says how the removal of the temporary directory \<open>d\<close> ends on leaving
  the \<open>with\<close> block: \<open>None\<close> when \<open>d\<close> and all below it are removed; \<open>Some (text, f')\<close> when
  the removal raises \<open>OSError\<close> with that text (the directory is still written to) and
  leaves the file system \<open>f'\<close>.
\<close>

record environment =
  os_environ :: "string \<rightharpoonup> string"
  mkdtemp :: "string \<Rightarrow> filesystem \<Rightarrow> string + string"
  subprocess_run ::
    "string list \<Rightarrow> (string \<rightharpoonup> string) \<Rightarrow> nat \<Rightarrow> filesystem \<Rightarrow> outcome \<times> filesystem"
  make_archive :: "string \<Rightarrow> string \<Rightarrow> string \<Rightarrow> filesystem \<Rightarrow> (string + unit) \<times> filesystem"
  send_file :: "string \<Rightarrow> filesystem \<Rightarrow> string option"
  decode :: "string \<Rightarrow> string option"
  cleanup_error :: "string \<Rightarrow> filesystem \<Rightarrow> (string \<times> filesystem) option"

text \<open>The calls of the handler that act on the outside world, in the order they are made.\<close>

datatype event =
    MkTemp string
  | Run "string list" "string \<rightharpoonup> string" nat
  | MakeArchive string string string
  | SendFile string string string
  | Cleanup string

record world =
  fs :: filesystem
  trace :: "event list"

definition emit :: "event \<Rightarrow> filesystem \<Rightarrow> world \<Rightarrow> world" where
  "emit ev f w = \<lparr>fs = f, trace = trace w @ [ev]\<rparr>"

subsection \<open>The job (lines 78 to 159)\<close>

text \<open>The command of lines 82 to 88.\<close>

definition command :: "string \<Rightarrow> string \<Rightarrow> string \<Rightarrow> string \<Rightarrow> string list" where
  "command model_name precision execution_provider output_path =
     [''python'', ''-m'', ''onnxruntime_genai.models.builder'',
      ''--model'', model_name,
      ''--precision'', precision,
      ''--execution_provider'', execution_provider,
      ''--output'', output_path]"

text \<open>
  The environment of the child, lines 94 to 102. A token that is true and not a string is
  stored as it is, and \<open>subprocess.run\<close> then raises \<open>TypeError\<close> before it starts a child.
\<close>

definition child_env :: "(string \<rightharpoonup> string) \<Rightarrow> json \<Rightarrow> exn + (string \<rightharpoonup> string)" where
  "child_env env hf_token =
     (if truthy hf_token then
        (case hf_token of
           JStr t \<Rightarrow> Inr (env(''HF_TOKEN'' \<mapsto> t, ''HUGGING_FACE_HUB_TOKEN'' \<mapsto> t))
         | _ \<Rightarrow> Inl (TypeError hf_token))
      else
        Inr (env(''HF_HUB_DISABLE_TELEMETRY'' \<mapsto> ''1'',
                 ''TRANSFORMERS_OFFLINE'' \<mapsto> ''0'',
                 ''HF_HUB_OFFLINE'' \<mapsto> ''0'')))"

text \<open>\<open>model_name.replace('/', '_')\<close>.\<close>

definition replace_slash :: "string \<Rightarrow> string" where
  "replace_slash s = map (\<lambda>c. if c = CHR ''/'' then CHR ''_'' else c) s"

definition archive_name :: "string \<Rightarrow> string \<Rightarrow> string \<Rightarrow> string" where
  "archive_name model_name precision execution_provider =
     replace_slash model_name @ ''_'' @ precision @ ''_'' @ execution_provider"

text \<open>Lines 135 to 159: the archive of the output and the response that carries it.\<close>

definition package ::
  "environment \<Rightarrow> string \<Rightarrow> string \<Rightarrow> string \<Rightarrow> string \<Rightarrow> string \<Rightarrow> world
     \<Rightarrow> response \<times> world" where
  "package env temp_dir output_path model_name precision execution_provider w =
     (let name = archive_name model_name precision execution_provider;
          archive_path = os_path_join temp_dir name;
          (made, f1) = make_archive env archive_path ''zip'' output_path (fs w);
          w1 = emit (MakeArchive archive_path ''zip'' output_path) f1 w
      in case made of
           Inl msg \<Rightarrow> (Json (Error (Text (''Archive creation failed: '' @ msg))) 500, w1)
         | Inr u \<Rightarrow>
             (let archive_file = archive_path @ ''.zip''
              in if \<not> path_exists f1 archive_file then
                   (Json (Error (Text ''Failed to create output archive'')) 500, w1)
                 else
                   (let w2 = emit (SendFile archive_file (name @ ''.zip'') ''application/zip'') f1 w1
                    in case send_file env archive_file f1 of
                         Some msg \<Rightarrow>
                           (Json (Error (Text (''Archive creation failed: '' @ msg))) 500, w2)
                       | None \<Rightarrow>
                           (Attachment archive_file (name @ ''.zip'') ''application/zip'', w2))))"

text \<open>
  Lines 104 to 133: the subprocess, its ways to end, and the check of the output. When the
  child has exited, \<open>subprocess.run\<close> decodes its standard output, then its standard
  error; \<open>UnicodeDecodeError\<close> is neither \<open>TimeoutExpired\<close> nor \<open>CalledProcessError\<close> and
  leaves the block as an exception. With \<open>check=True\<close> a return code other than 0 is
  \<open>CalledProcessError\<close>, which carries the two texts.
\<close>

definition run_builder ::
  "environment \<Rightarrow> string \<Rightarrow> string \<Rightarrow> string \<Rightarrow> string \<Rightarrow> string \<Rightarrow> (string \<rightharpoonup> string) \<Rightarrow> world
     \<Rightarrow> (exn + response) \<times> world" where
  "run_builder env temp_dir output_path model_name precision execution_provider cenv w =
     (let cmd = command model_name precision execution_provider output_path;
          (result, f1) = subprocess_run env cmd cenv 1800 (fs w);
          w1 = emit (Run cmd cenv 1800) f1 w
      in case result of
           Failed msg \<Rightarrow> (Inl (OtherError msg), w1)
         | TimedOut \<Rightarrow>
             (Inr (Json (Error (Text ''Model generation timed out (30 minutes limit)'')) 408), w1)
         | Exited returncode stdout_bytes stderr_bytes \<Rightarrow>
             (case decode env stdout_bytes of
                None \<Rightarrow> (Inl (UnicodeDecodeError stdout_bytes), w1)
              | Some out \<Rightarrow>
                  (case decode env stderr_bytes of
                     None \<Rightarrow> (Inl (UnicodeDecodeError stderr_bytes), w1)
                   | Some err \<Rightarrow>
                       if returncode \<noteq> 0 then
                         (Inr (Json (ErrorDetails (Text ''Model generation failed'') err out) 500),
                          w1)
                       else if \<not> path_exists f1 output_path then
                         (Inr (Json (Error (Text ''No output generated from model conversion''))
                                 500), w1)
                       else
                         (case listdir f1 output_path of
                            Inl x \<Rightarrow> (Inl x, w1)
                          | Inr [] \<Rightarrow>
                              (Inr (Json (Error (Text
                                      ''No output generated from model conversion'')) 500), w1)
                          | Inr (n # ns) \<Rightarrow>
                              (let (r, w2) = package env temp_dir output_path model_name
                                               precision execution_provider w1
                               in (Inr r, w2))))))"

text \<open>
  The body of the \<open>with\<close> block. \<open>' '.join(command)\<close> raises \<open>TypeError\<close> at the first
  element that is not a string; the precision and the execution provider are strings after
  the validation, the model name need not be.
\<close>

definition job ::
  "environment \<Rightarrow> string \<Rightarrow> json \<times> json \<times> json \<times> json \<Rightarrow> world \<Rightarrow> (exn + response) \<times> world" where
  "job env temp_dir args w =
     (case args of (model_name, precision, execution_provider, hf_token) \<Rightarrow>
        (let output_path = os_path_join temp_dir ''model_output''
         in case (model_name, precision, execution_provider) of
              (JStr m, JStr p, JStr e) \<Rightarrow>
                (case child_env (os_environ env) hf_token of
                   Inl x \<Rightarrow> (Inl x, w)
                 | Inr cenv \<Rightarrow> run_builder env temp_dir output_path m p e cenv w)
            | (JStr m, JStr p, v) \<Rightarrow> (Inl (TypeError v), w)
            | (JStr m, v, _) \<Rightarrow> (Inl (TypeError v), w)
            | (v, _, _) \<Rightarrow> (Inl (TypeError v), w)))"

text \<open>
  The scoped temporary directory of line 78: made on entry; on every way out of the block,
  a return and an exception alike, its removal is attempted. When the removal raises, its
  exception leaves the block in place of the response or the exception of the body, and
  what was not removed stays on the disk.
\<close>

definition with_temporary_directory ::
  "environment \<Rightarrow> json \<times> json \<times> json \<times> json \<Rightarrow> filesystem \<Rightarrow> (exn + response) \<times> world" where
  "with_temporary_directory env args f =
     (case mkdtemp env TEMP_DIR f of
        Inl msg \<Rightarrow> (Inl (OtherError msg), \<lparr>fs = f, trace = []\<rparr>)
      | Inr temp_dir \<Rightarrow>
          (let w0 = \<lparr>fs = (temp_dir, Dir) # f, trace = [MkTemp temp_dir]\<rparr>;
               (r, w1) = job env temp_dir args w0
           in case cleanup_error env temp_dir (fs w1) of
                None \<Rightarrow> (r, emit (Cleanup temp_dir) (rmtree temp_dir (fs w1)) w1)
              | Some (msg, f2) \<Rightarrow> (Inl (OtherError msg), emit (Cleanup temp_dir) f2 w1)))"

subsection \<open>The handler\<close>

definition internal_server_error :: "exn \<Rightarrow> response" where
  "internal_server_error x = Json (Error (InternalServerError x)) 500"

definition generate_model :: "environment \<Rightarrow> request \<Rightarrow> filesystem \<Rightarrow> response \<times> world" where
  "generate_model env req f =
     (case validate req of
        Return r \<Rightarrow> (r, \<lparr>fs = f, trace = []\<rparr>)
      | Raise x \<Rightarrow> (internal_server_error x, \<lparr>fs = f, trace = []\<rparr>)
      | Continue args \<Rightarrow>
          (case with_temporary_directory env args f of
             (Inl x, w) \<Rightarrow> (internal_server_error x, w)
           | (Inr r, w) \<Rightarrow> (r, w)))"

subsection \<open>Reading the trace\<close>

fun run_command :: "event \<Rightarrow> string list option" where
  "run_command (Run cmd cenv t) = Some cmd"
| "run_command ev = None"

fun run_env :: "event \<Rightarrow> (string \<rightharpoonup> string) option" where
  "run_env (Run cmd cenv t) = Some cenv"
| "run_env ev = None"

text \<open>The commands handed to \<open>subprocess.run\<close>, and the environments handed with them.\<close>

definition run_commands :: "event list \<Rightarrow> string list list" where
  "run_commands tr = List.map_filter run_command tr"

definition run_envs :: "event list \<Rightarrow> (string \<rightharpoonup> string) list" where
  "run_envs tr = List.map_filter run_env tr"

subsection \<open>The validation as the specification words it\<close>

text \<open>
  A request passes the validation when the handler goes on to the job.
\<close>

definition passes_validation :: "request \<Rightarrow> bool" where
  "passes_validation req = (case validate req of Continue args \<Rightarrow> True | _ \<Rightarrow> False)"

text \<open>
  The specification's reading of the validation: five checks in a fixed order of
  precedence, each with the response of its failure, and the answer of the first check
  that fails. \<open>param req key default\<close> is the parameter of a request whose body is a
  dictionary.
\<close>

definition param :: "request \<Rightarrow> string \<Rightarrow> json \<Rightarrow> json" where
  "param req k d = (case get_json req of Inr (JObj kv) \<Rightarrow> dict_get kv k d | _ \<Rightarrow> d)"

definition checks_in_precedence_order :: "request \<Rightarrow> (bool \<times> response) list" where
  "checks_in_precedence_order req =
     (let model_name = param req ''model'' JNull;
          precision = param req ''precision'' (JStr ''fp32'');
          execution_provider = param req ''execution_provider'' (JStr ''cpu'')
      in [(is_json req,
             Json (Error (Text ''Content-Type must be application/json'')) 400),
          (truthy model_name,
             Json (Error (Text ''model parameter is required'')) 400),
          (py_in precision SUPPORTED_PRECISIONS,
             Json (Error (UnsupportedPrecision precision)) 400),
          (py_in execution_provider SUPPORTED_EXECUTION_PROVIDERS,
             Json (Error (UnsupportedExecutionProvider execution_provider)) 400),
          (py_pair_in (precision, execution_provider) VALID_COMBINATIONS,
             Json (Error (InvalidCombination precision execution_provider)) 400)])"

definition first_failing_check :: "(bool \<times> response) list \<Rightarrow> response option" where
  "first_failing_check cs = map_option snd (find (\<lambda>c. \<not> fst c) cs)"

subsection \<open>Requests and surroundings to run the handler on\<close>

definition json_request :: "(string \<times> json) list \<Rightarrow> request" where
  "json_request kv = \<lparr>is_json = True, get_json = Inr (JObj kv)\<rparr>"

definition gpt2_request :: "string \<Rightarrow> string \<Rightarrow> request" where
  "gpt2_request p e =
     json_request [(''model'', JStr ''gpt2''), (''precision'', JStr p),
                   (''execution_provider'', JStr e)]"

definition stub_mkdtemp :: "string \<Rightarrow> filesystem \<Rightarrow> string + string" where
  "stub_mkdtemp dir f = Inr (os_path_join dir ''tmp8k2v_x1q'')"

definition stub_make_archive ::
  "string \<Rightarrow> string \<Rightarrow> string \<Rightarrow> filesystem \<Rightarrow> (string + unit) \<times> filesystem" where
  "stub_make_archive base fmt root f = (Inr (), (base @ ''.'' @ fmt, File) # f)"

text \<open>The decoder of an ASCII locale: a byte of 128 or more does not decode.\<close>

definition ascii_text :: "string \<Rightarrow> string option" where
  "ascii_text bytes = (if list_all (\<lambda>c. \<not> digit7 c) bytes then Some bytes else None)"

text \<open>
  Surroundings whose builder is the given stub; the temporary directory is removed without
  error.
\<close>

definition stub_env ::
  "(string list \<Rightarrow> (string \<rightharpoonup> string) \<Rightarrow> nat \<Rightarrow> filesystem \<Rightarrow> outcome \<times> filesystem)
     \<Rightarrow> environment" where
  "stub_env tool =
     \<lparr>os_environ = [''PATH'' \<mapsto> ''/usr/bin''], mkdtemp = stub_mkdtemp,
      subprocess_run = tool, make_archive = stub_make_archive,
      send_file = (\<lambda>path f. None), decode = ascii_text,
      cleanup_error = (\<lambda>d f. None)\<rparr>"

text \<open>A builder that writes two files into the directory after \<open>--output\<close> and exits 0.\<close>

definition tool_two_files ::
  "string list \<Rightarrow> (string \<rightharpoonup> string) \<Rightarrow> nat \<Rightarrow> filesystem \<Rightarrow> outcome \<times> filesystem" where
  "tool_two_files cmd cenv t f =
     (Exited 0 ''done'' [],
      (last cmd, Dir) # (os_path_join (last cmd) ''model.onnx'', File)
        # (os_path_join (last cmd) ''genai_config.json'', File) # f)"

text \<open>A builder that outlives the deadline, having written a partial file.\<close>

definition tool_timeout ::
  "string list \<Rightarrow> (string \<rightharpoonup> string) \<Rightarrow> nat \<Rightarrow> filesystem \<Rightarrow> outcome \<times> filesystem" where
  "tool_timeout cmd cenv t f =
     (TimedOut, (last cmd, Dir) # (os_path_join (last cmd) ''model.onnx.part'', File) # f)"

text \<open>A builder that fails with exit status 1.\<close>

definition tool_exit1 ::
  "string list \<Rightarrow> (string \<rightharpoonup> string) \<Rightarrow> nat \<Rightarrow> filesystem \<Rightarrow> outcome \<times> filesystem" where
  "tool_exit1 cmd cenv t f = (Exited 1 ''Loading model'' ''ValueError: unknown architecture'', f)"

text \<open>A builder that exits 0 and leaves an empty output directory.\<close>

definition tool_no_output ::
  "string list \<Rightarrow> (string \<rightharpoonup> string) \<Rightarrow> nat \<Rightarrow> filesystem \<Rightarrow> outcome \<times> filesystem" where
  "tool_no_output cmd cenv t f = (Exited 0 [] [], (last cmd, Dir) # f)"

text \<open>A builder that exits with status 1 and writes the bytes FF FE to its standard error.\<close>

definition tool_exit1_bytes ::
  "string list \<Rightarrow> (string \<rightharpoonup> string) \<Rightarrow> nat \<Rightarrow> filesystem \<Rightarrow> outcome \<times> filesystem" where
  "tool_exit1_bytes cmd cenv t f = (Exited 1 ''Loading model'' [CHR 0xFF, CHR 0xFE], f)"

text \<open>
  A builder that exits 0, leaves an empty output directory and writes the bytes FF FE to
  its standard output.
\<close>

definition tool_no_output_bytes ::
  "string list \<Rightarrow> (string \<rightharpoonup> string) \<Rightarrow> nat \<Rightarrow> filesystem \<Rightarrow> outcome \<times> filesystem" where
  "tool_no_output_bytes cmd cenv t f = (Exited 0 [CHR 0xFF, CHR 0xFE] [], (last cmd, Dir) # f)"

text \<open>A builder that exits 0 and writes a regular file where its output directory should be.\<close>

definition tool_output_file ::
  "string list \<Rightarrow> (string \<rightharpoonup> string) \<Rightarrow> nat \<Rightarrow> filesystem \<Rightarrow> outcome \<times> filesystem" where
  "tool_output_file cmd cenv t f = (Exited 0 ''done'' [], (last cmd, File) # f)"

text \<open>
  A removal that fails because a process the builder started is still writing below the
  directory: what is there stays.
\<close>

definition still_written_to :: "string \<Rightarrow> filesystem \<Rightarrow> (string \<times> filesystem) option" where
  "still_written_to d f = Some (''[Errno 39] Directory not empty'', f)"

section \<open>Properties of the handler\<close>

subsection \<open>Auxiliary facts\<close>

lemmas stub_defs = json_request_def gpt2_request_def stub_mkdtemp_def stub_make_archive_def stub_env_def
  tool_two_files_def tool_timeout_def tool_exit1_def tool_no_output_def
  tool_exit1_bytes_def tool_no_output_bytes_def tool_output_file_def still_written_to_def ascii_text_def

lemma py_in_JStr: "py_in (JStr s) xs = (s \<in> set xs)"
  by (auto simp: py_in_def)

lemma py_pair_in_JStr: "py_pair_in (JStr a, JStr b) xs = ((a, b) \<in> set xs)"
  by (auto simp: py_pair_in_def)

lemma validate_object:
  assumes "is_json req" and "get_json req = Inr (JObj kv)"
  shows "validate req =
     (if \<not> truthy (dict_get kv ''model'' JNull) then
        Return (Json (Error (Text ''model parameter is required'')) 400)
      else if \<not> py_in (dict_get kv ''precision'' (JStr ''fp32'')) SUPPORTED_PRECISIONS then
        Return (Json (Error (UnsupportedPrecision (dict_get kv ''precision'' (JStr ''fp32'')))) 400)
      else if \<not> py_in (dict_get kv ''execution_provider'' (JStr ''cpu''))
                   SUPPORTED_EXECUTION_PROVIDERS then
        Return (Json (Error (UnsupportedExecutionProvider
                               (dict_get kv ''execution_provider'' (JStr ''cpu'')))) 400)
      else if \<not> py_pair_in (dict_get kv ''precision'' (JStr ''fp32''),
                             dict_get kv ''execution_provider'' (JStr ''cpu''))
                   VALID_COMBINATIONS then
        Return (Json (Error (InvalidCombination (dict_get kv ''precision'' (JStr ''fp32''))
                               (dict_get kv ''execution_provider'' (JStr ''cpu'')))) 400)
      else Continue (dict_get kv ''model'' JNull, dict_get kv ''precision'' (JStr ''fp32''),
                     dict_get kv ''execution_provider'' (JStr ''cpu''),
                     dict_get kv ''token'' JNull))"
  using assms by (simp add: validate_def Let_def)

lemma job_strings:
  assumes "child_env (os_environ env) tok = Inr cenv"
  shows "job env d (JStr m, JStr p, JStr e, tok) w =
           run_builder env d (os_path_join d ''model_output'') m p e cenv w"
  using assms by (simp add: job_def Let_def)

lemma package_runs:
  "run_commands (trace (snd (package env d op m p e w))) = run_commands (trace w)"
  "run_envs (trace (snd (package env d op m p e w))) = run_envs (trace w)"
  by (simp_all add: package_def emit_def Let_def run_commands_def run_envs_def List.map_filter_def
        split: prod.splits sum.splits option.splits)

lemma run_builder_runs:
  "run_commands (trace (snd (run_builder env d op m p e cenv w))) =
     run_commands (trace w) @ [command m p e op]"
  "run_envs (trace (snd (run_builder env d op m p e cenv w))) = run_envs (trace w) @ [cenv]"
proof -
  obtain result f1 where r: "subprocess_run env (command m p e op) cenv 1800 (fs w) = (result, f1)"
    by (cases "subprocess_run env (command m p e op) cenv 1800 (fs w)")
  define w1 where "w1 = emit (Run (command m p e op) cenv 1800) f1 w"
  have c1: "run_commands (trace w1) = run_commands (trace w) @ [command m p e op]"
    and e1: "run_envs (trace w1) = run_envs (trace w) @ [cenv]"
    by (simp_all add: w1_def emit_def run_commands_def run_envs_def List.map_filter_def)
  have "snd (run_builder env d op m p e cenv w) = w1
        \<or> snd (run_builder env d op m p e cenv w) = snd (package env d op m p e w1)"
    using r by (simp add: run_builder_def Let_def w1_def
        split: outcome.splits sum.splits list.splits prod.splits option.splits)
  then show "run_commands (trace (snd (run_builder env d op m p e cenv w))) =
     run_commands (trace w) @ [command m p e op]"
    and "run_envs (trace (snd (run_builder env d op m p e cenv w))) = run_envs (trace w) @ [cenv]"
    using c1 e1 by (auto simp: package_runs)
qed

lemma rmtree_removes: "within d path \<Longrightarrow> \<not> path_exists (rmtree d f) path"
  by (auto simp: path_exists_def rmtree_def map_of_eq_None_iff)

lemma within_join:
  assumes "d \<noteq> []" and "b \<noteq> []" and "hd b \<noteq> CHR ''/''"
  shows "within d (os_path_join d b @ s)"
  using assms by (auto simp: within_def os_path_join_def with_slash_def)

lemma package_cases:
  "(\<exists>b. fst (package env d op m p e w) = Json b 500)
   \<or> (\<exists>path. fst (package env d op m p e w) =
           Attachment path (archive_name m p e @ ''.zip'') ''application/zip'')"
  by (simp add: package_def Let_def split: prod.splits sum.splits option.splits)

lemma job_not_strings:
  assumes "\<not> (\<exists>m p e. mv = JStr m \<and> pv = JStr p \<and> ev = JStr e)"
  shows "\<exists>v. job env d (mv, pv, ev, tok) w = (Inl (TypeError v), w)"
proof (cases "\<exists>m. mv = JStr m")
  case False
  then show ?thesis by (cases mv) (simp_all add: job_def)
next
  case True
  then obtain m where m: "mv = JStr m" by blast
  show ?thesis
  proof (cases "\<exists>p. pv = JStr p")
    case False
    then show ?thesis using m by (cases pv) (simp_all add: job_def)
  next
    case True
    then obtain p where p: "pv = JStr p" by blast
    then have "\<not> (\<exists>e. ev = JStr e)" using assms m by simp
    then show ?thesis using m p by (cases ev) (simp_all add: job_def)
  qed
qed

lemma first_failing_check_Cons:
  "first_failing_check ((ok, r) # cs) = (if ok then first_failing_check cs else Some r)"
  "first_failing_check [] = None"
  by (simp_all add: first_failing_check_def)


lemma generate_model_job:
  assumes "validate req = Continue args" and "mkdtemp env TEMP_DIR f = Inr d"
  shows "generate_model env req f =
     (case job env d args \<lparr>fs = (d, Dir) # f, trace = [MkTemp d]\<rparr> of
        (r, w1) \<Rightarrow>
          (case cleanup_error env d (fs w1) of
             None \<Rightarrow>
               (case r of Inl x \<Rightarrow> internal_server_error x | Inr r' \<Rightarrow> r',
                \<lparr>fs = rmtree d (fs w1), trace = trace w1 @ [Cleanup d]\<rparr>)
           | Some (msg, f2) \<Rightarrow>
               (internal_server_error (OtherError msg),
                \<lparr>fs = f2, trace = trace w1 @ [Cleanup d]\<rparr>)))"
  using assms
  by (simp add: generate_model_def with_temporary_directory_def emit_def Let_def
        split: prod.splits sum.splits option.splits)

lemma generate_model_trace:
  assumes "validate req = Continue args" and "mkdtemp env TEMP_DIR f = Inr d"
  shows "trace (snd (generate_model env req f)) =
           trace (snd (job env d args \<lparr>fs = (d, Dir) # f, trace = [MkTemp d]\<rparr>)) @ [Cleanup d]"
  using assms
  by (simp add: generate_model_job split: prod.splits option.splits)

lemma generate_model_runs:
  assumes "validate req = Continue (JStr m, JStr p, JStr e, tok)"
    and "child_env (os_environ env) tok = Inr cenv"
    and "mkdtemp env TEMP_DIR f = Inr d"
  shows "run_commands (trace (snd (generate_model env req f))) =
           [command m p e (os_path_join d ''model_output'')]"
    and "run_envs (trace (snd (generate_model env req f))) = [cenv]"
proof -
  let ?w0 = "\<lparr>fs = (d, Dir) # f, trace = [MkTemp d]\<rparr>"
  let ?rb = "run_builder env d (os_path_join d ''model_output'') m p e cenv ?w0"
  have t: "trace (snd (generate_model env req f)) = trace (snd ?rb) @ [Cleanup d]"
    using assms by (simp add: generate_model_trace job_strings)
  have "run_commands (trace (snd ?rb)) = [command m p e (os_path_join d ''model_output'')]"
    and "run_envs (trace (snd ?rb)) = [cenv]"
    by (simp_all add: run_builder_runs) (simp_all add: run_commands_def run_envs_def List.map_filter_def)
  then show "run_commands (trace (snd (generate_model env req f))) =
           [command m p e (os_path_join d ''model_output'')]"
    and "run_envs (trace (snd (generate_model env req f))) = [cenv]"
    unfolding t by (simp_all add: run_commands_def run_envs_def List.map_filter_def)
qed

lemma run_builder_cases:
  "(\<exists>x. fst (run_builder env d op m p e cenv w) = Inl x)
   \<or> (\<exists>b c. fst (run_builder env d op m p e cenv w) = Inr (Json b c) \<and> c \<noteq> 200)
   \<or> (\<exists>path. fst (run_builder env d op m p e cenv w) =
           Inr (Attachment path (archive_name m p e @ ''.zip'') ''application/zip''))"
proof -
  obtain result f1 where s: "subprocess_run env (command m p e op) cenv 1800 (fs w) = (result, f1)"
    by (cases "subprocess_run env (command m p e op) cenv 1800 (fs w)")
  define w1 where "w1 = emit (Run (command m p e op) cenv 1800) f1 w"
  have "(\<exists>x. fst (run_builder env d op m p e cenv w) = Inl x)
    \<or> (\<exists>b c. fst (run_builder env d op m p e cenv w) = Inr (Json b c) \<and> c \<noteq> 200)
    \<or> fst (run_builder env d op m p e cenv w) = Inr (fst (package env d op m p e w1))"
    using s
    by (simp add: run_builder_def Let_def w1_def
        split: outcome.splits sum.splits list.splits prod.splits option.splits)
  then show ?thesis using package_cases [of env d op m p e w1] by auto
qed

lemma job_ok:
  assumes "fst (job env d (mv, pv, ev, tok) w) = Inr r" and "status r = 200"
  shows "\<exists>m p e path. mv = JStr m \<and> pv = JStr p \<and> ev = JStr e \<and>
           r = Attachment path (archive_name m p e @ ''.zip'') ''application/zip''"
proof (cases "\<exists>m p e. mv = JStr m \<and> pv = JStr p \<and> ev = JStr e")
  case True
  then obtain m p e where eq: "mv = JStr m" "pv = JStr p" "ev = JStr e" by blast
  show ?thesis
  proof (cases "child_env (os_environ env) tok")
    case (Inl x)
    then show ?thesis using assms eq by (simp add: job_def)
  next
    case (Inr cenv)
    then have "fst (run_builder env d (os_path_join d ''model_output'') m p e cenv w) = Inr r"
      using assms eq by (simp add: job_strings)
    then show ?thesis
      using eq assms(2) run_builder_cases [of env d "os_path_join d ''model_output''" m p e cenv w]
      by auto
  qed
next
  case False
  then show ?thesis using assms job_not_strings [of mv pv ev env d tok w] by auto
qed

text \<open>Whatever the surroundings do, an answer with status 200 is the attachment.\<close>

lemma generate_model_ok:
  assumes "validate req = Continue (mv, pv, ev, tok)"
    and "status (fst (generate_model env req f)) = 200"
  shows "\<exists>m p e path. mv = JStr m \<and> pv = JStr p \<and> ev = JStr e \<and>
           fst (generate_model env req f) =
             Attachment path (archive_name m p e @ ''.zip'') ''application/zip''"
proof (cases "mkdtemp env TEMP_DIR f")
  case (Inl msg)
  then show ?thesis
    using assms
    by (simp add: generate_model_def with_temporary_directory_def internal_server_error_def)
next
  case (Inr d)
  let ?j = "job env d (mv, pv, ev, tok) \<lparr>fs = (d, Dir) # f, trace = [MkTemp d]\<rparr>"
  have g: "fst (generate_model env req f) =
             (case cleanup_error env d (fs (snd ?j)) of
                None \<Rightarrow> (case fst ?j of Inl x \<Rightarrow> internal_server_error x | Inr r \<Rightarrow> r)
              | Some (msg, f2) \<Rightarrow> internal_server_error (OtherError msg))"
    using assms(1) Inr by (simp add: generate_model_job split: prod.splits option.splits)
  show ?thesis
  proof (cases "cleanup_error env d (fs (snd ?j))")
    case (Some a)
    then show ?thesis using assms(2) g by (simp add: internal_server_error_def split: prod.splits)
  next
    case None
    show ?thesis
    proof (cases "fst ?j")
      case (Inl x)
      then show ?thesis using assms(2) g None by (simp add: internal_server_error_def)
    next
      case (Inr r)
      then have "status r = 200" and "fst (generate_model env req f) = r"
        using assms(2) g None by simp_all
      then show ?thesis using job_ok [OF Inr] by simp
    qed
  qed
qed

text \<open>
  What the handler answers to a request that passed the validation with a model that is a
  string and a token that is absent or a string, once the temporary directory \<open>d\<close> is made,
  for each way the builder ends. The removal of \<open>d\<close> comes last: when it raises, its
  exception replaces the answer and what it left stays.
\<close>

lemma after_run:
  assumes "validate req = Continue (JStr m, JStr p, JStr e, tok)"
    and "child_env (os_environ env) tok = Inr cenv"
    and "mkdtemp env TEMP_DIR f = Inr d"
    and "run_builder env d (os_path_join d ''model_output'') m p e cenv
           \<lparr>fs = (d, Dir) # f, trace = [MkTemp d]\<rparr> = (Inr r, \<lparr>fs = f1, trace = t\<rparr>)"
  shows "generate_model env req f =
           (case cleanup_error env d f1 of
              None \<Rightarrow> (r, \<lparr>fs = rmtree d f1, trace = t @ [Cleanup d]\<rparr>)
            | Some (msg, f2) \<Rightarrow>
                (internal_server_error (OtherError msg), \<lparr>fs = f2, trace = t @ [Cleanup d]\<rparr>))"
  using assms by (simp add: generate_model_job job_strings split: option.splits)

lemma timeout_response:
  assumes "validate req = Continue (JStr m, JStr p, JStr e, tok)"
    and "child_env (os_environ env) tok = Inr cenv"
    and "mkdtemp env TEMP_DIR f = Inr d"
    and "subprocess_run env (command m p e (os_path_join d ''model_output'')) cenv 1800
           ((d, Dir) # f) = (TimedOut, f1)"
  shows "generate_model env req f =
           (case cleanup_error env d f1 of
              None \<Rightarrow>
                (Json (Error (Text ''Model generation timed out (30 minutes limit)'')) 408,
                 \<lparr>fs = rmtree d f1,
                  trace = [MkTemp d,
                           Run (command m p e (os_path_join d ''model_output'')) cenv 1800,
                           Cleanup d]\<rparr>)
            | Some (msg, f2) \<Rightarrow>
                (internal_server_error (OtherError msg),
                 \<lparr>fs = f2,
                  trace = [MkTemp d,
                           Run (command m p e (os_path_join d ''model_output'')) cenv 1800,
                           Cleanup d]\<rparr>))"
proof -
  have "run_builder env d (os_path_join d ''model_output'') m p e cenv
          \<lparr>fs = (d, Dir) # f, trace = [MkTemp d]\<rparr> =
        (Inr (Json (Error (Text ''Model generation timed out (30 minutes limit)'')) 408),
         \<lparr>fs = f1,
          trace = [MkTemp d, Run (command m p e (os_path_join d ''model_output'')) cenv 1800]\<rparr>)"
    using assms(4-) by (simp add: run_builder_def emit_def Let_def)
  from after_run [OF assms(1-3) this] show ?thesis by (simp split: option.splits)
qed

lemma nonzero_exit_response:
  assumes "validate req = Continue (JStr m, JStr p, JStr e, tok)"
    and "child_env (os_environ env) tok = Inr cenv"
    and "mkdtemp env TEMP_DIR f = Inr d"
    and "subprocess_run env (command m p e (os_path_join d ''model_output'')) cenv 1800
           ((d, Dir) # f) = (Exited returncode stdout_bytes stderr_bytes, f1)"
    and "returncode \<noteq> 0"
    and "decode env stdout_bytes = Some out" and "decode env stderr_bytes = Some err"
  shows "generate_model env req f =
           (case cleanup_error env d f1 of
              None \<Rightarrow>
                (Json (ErrorDetails (Text ''Model generation failed'') err out) 500,
                 \<lparr>fs = rmtree d f1,
                  trace = [MkTemp d,
                           Run (command m p e (os_path_join d ''model_output'')) cenv 1800,
                           Cleanup d]\<rparr>)
            | Some (msg, f2) \<Rightarrow>
                (internal_server_error (OtherError msg),
                 \<lparr>fs = f2,
                  trace = [MkTemp d,
                           Run (command m p e (os_path_join d ''model_output'')) cenv 1800,
                           Cleanup d]\<rparr>))"
proof -
  have "run_builder env d (os_path_join d ''model_output'') m p e cenv
          \<lparr>fs = (d, Dir) # f, trace = [MkTemp d]\<rparr> =
        (Inr (Json (ErrorDetails (Text ''Model generation failed'') err out) 500),
         \<lparr>fs = f1,
          trace = [MkTemp d, Run (command m p e (os_path_join d ''model_output'')) cenv 1800]\<rparr>)"
    using assms(4-) by (simp add: run_builder_def emit_def Let_def)
  from after_run [OF assms(1-3) this] show ?thesis by (simp split: option.splits)
qed

lemma empty_output_response:
  assumes "validate req = Continue (JStr m, JStr p, JStr e, tok)"
    and "child_env (os_environ env) tok = Inr cenv"
    and "mkdtemp env TEMP_DIR f = Inr d"
    and "subprocess_run env (command m p e (os_path_join d ''model_output'')) cenv 1800
           ((d, Dir) # f) = (Exited 0 stdout_bytes stderr_bytes, f1)"
    and "decode env stdout_bytes = Some out" and "decode env stderr_bytes = Some err"
    and "\<not> path_exists f1 (os_path_join d ''model_output'')
         \<or> listdir f1 (os_path_join d ''model_output'') = Inr []"
  shows "generate_model env req f =
           (case cleanup_error env d f1 of
              None \<Rightarrow>
                (Json (Error (Text ''No output generated from model conversion'')) 500,
                 \<lparr>fs = rmtree d f1,
                  trace = [MkTemp d,
                           Run (command m p e (os_path_join d ''model_output'')) cenv 1800,
                           Cleanup d]\<rparr>)
            | Some (msg, f2) \<Rightarrow>
                (internal_server_error (OtherError msg),
                 \<lparr>fs = f2,
                  trace = [MkTemp d,
                           Run (command m p e (os_path_join d ''model_output'')) cenv 1800,
                           Cleanup d]\<rparr>))"
proof -
  have "run_builder env d (os_path_join d ''model_output'') m p e cenv
          \<lparr>fs = (d, Dir) # f, trace = [MkTemp d]\<rparr> =
        (Inr (Json (Error (Text ''No output generated from model conversion'')) 500),
         \<lparr>fs = f1,
          trace = [MkTemp d, Run (command m p e (os_path_join d ''model_output'')) cenv 1800]\<rparr>)"
    using assms(4-) by (auto simp add: run_builder_def emit_def Let_def)
  from after_run [OF assms(1-3) this] show ?thesis by (simp split: option.splits)
qed

text \<open>When the removal succeeds, nothing is left at the temporary directory or below it.\<close>

lemma removed_when_cleanup_succeeds:
  assumes "validate req = Continue args" and "mkdtemp env TEMP_DIR f = Inr d"
    and "cleanup_error env d
           (fs (snd (job env d args \<lparr>fs = (d, Dir) # f, trace = [MkTemp d]\<rparr>))) = None"
    and "within d path"
  shows "\<not> path_exists (fs (snd (generate_model env req f))) path"
  using assms
  by (cases "job env d args \<lparr>fs = (d, Dir) # f, trace = [MkTemp d]\<rparr>")
     (simp add: generate_model_job rmtree_removes)

lemma listdir_exists: "listdir f p = Inr ns \<Longrightarrow> path_exists f p"
  by (simp add: listdir_def path_exists_def split: option.splits node.splits)

subsection \<open>The valid combinations\<close>

text \<open>
  Claim C1, as amended. Take a request with a non-empty model, a precision \<open>p\<close> and an
  execution provider \<open>e\<close>. If \<open>p\<close> is a declared precision and \<open>e\<close> a declared provider,
  the request passes the validation if and only if \<open>(p, e)\<close> is one of the ten enumerated
  combinations. Of those ten, \<open>(bf16, cuda)\<close> lies outside the declared precisions and is
  rejected: over all strings \<open>p\<close> and \<open>e\<close>, the requests that pass are exactly the other
  nine.
\<close>

theorem C1_valid_pairs:
  assumes "is_json req" and "get_json req = Inr (JObj kv)"
    and "map_of kv ''model'' = Some (JStr m)" and "m \<noteq> []"
    and "map_of kv ''precision'' = Some (JStr p)"
    and "map_of kv ''execution_provider'' = Some (JStr e)"
  shows "(p \<in> set SUPPORTED_PRECISIONS \<and> e \<in> set SUPPORTED_EXECUTION_PROVIDERS \<longrightarrow>
            (passes_validation req \<longleftrightarrow>
               (p, e) \<in> {(''fp32'', ''cpu''), (''fp32'', ''cuda''),
                         (''fp16'', ''cuda''), (''fp16'', ''dml''), (''fp16'', ''NvTensorRtRtx''),
                         (''bf16'', ''cuda''),
                         (''int4'', ''cpu''), (''int4'', ''cuda''), (''int4'', ''dml''),
                         (''int4'', ''webgpu'')}))
       \<and> (passes_validation req \<longleftrightarrow>
               (p, e) \<in> {(''fp32'', ''cpu''), (''fp32'', ''cuda''),
                         (''fp16'', ''cuda''), (''fp16'', ''dml''), (''fp16'', ''NvTensorRtRtx''),
                         (''int4'', ''cpu''), (''int4'', ''cuda''), (''int4'', ''dml''),
                         (''int4'', ''webgpu'')})"
proof -
  have v: "passes_validation req \<longleftrightarrow>
      p \<in> set SUPPORTED_PRECISIONS \<and> e \<in> set SUPPORTED_EXECUTION_PROVIDERS \<and>
      (p, e) \<in> set VALID_COMBINATIONS"
    using assms
    by (simp add: passes_validation_def validate_object dict_get_def py_in_JStr py_pair_in_JStr)
  show ?thesis
    unfolding v
    by (auto simp: SUPPORTED_PRECISIONS_def SUPPORTED_EXECUTION_PROVIDERS_def
          VALID_COMBINATIONS_def)
qed

text \<open>
  The amended claim on three requests for \<open>gpt2\<close>: \<open>(fp16, dml)\<close> passes,
  \<open>(int8, cpu)\<close> and \<open>(bf16, cuda)\<close> do not.
\<close>

theorem C1_valid_pairs_witness:
  "passes_validation (gpt2_request ''fp16'' ''dml'')
   \<and> passes_validation (gpt2_request ''int8'' ''cpu'') = False
   \<and> passes_validation (gpt2_request ''bf16'' ''cuda'') = False"
  using
    C1_valid_pairs [of "gpt2_request ''fp16'' ''dml''"
      "[(''model'', JStr ''gpt2''), (''precision'', JStr ''fp16''),
        (''execution_provider'', JStr ''dml'')]" "''gpt2''" "''fp16''" "''dml''"]
    C1_valid_pairs [of "gpt2_request ''int8'' ''cpu''"
      "[(''model'', JStr ''gpt2''), (''precision'', JStr ''int8''),
        (''execution_provider'', JStr ''cpu'')]" "''gpt2''" "''int8''" "''cpu''"]
    C1_valid_pairs [of "gpt2_request ''bf16'' ''cuda''"
      "[(''model'', JStr ''gpt2''), (''precision'', JStr ''bf16''),
        (''execution_provider'', JStr ''cuda'')]" "''gpt2''" "''bf16''" "''cuda''"]
  by (simp add: gpt2_request_def json_request_def SUPPORTED_PRECISIONS_def
        SUPPORTED_EXECUTION_PROVIDERS_def)

text \<open>
  Claim C1 as it is worded says that exactly the ten enumerated combinations pass. The
  combination \<open>(bf16, cuda)\<close> is one of the ten, and the request for \<open>gpt2\<close> with it is
  turned away at the precision check.
\<close>

theorem C1_counterexample:
  "(''bf16'', ''cuda'') \<in> set VALID_COMBINATIONS \<and>
   validate (gpt2_request ''bf16'' ''cuda'')
     = Return (Json (Error (UnsupportedPrecision (JStr ''bf16''))) 400) \<and>
   \<not> passes_validation (gpt2_request ''bf16'' ''cuda'')"
  by (simp add: VALID_COMBINATIONS_def validate_def gpt2_request_def json_request_def dict_get_def
        py_in_JStr SUPPORTED_PRECISIONS_def passes_validation_def)

subsection \<open>The precision \<open>bf16\<close>\<close>

text \<open>
  Claim C2, as amended. For every JSON request with a model that is not empty and the
  precision \<open>bf16\<close>, whatever its execution provider, the handler answers 400 with the
  unsupported-precision error and touches nothing (no directory, no subprocess): the check of
  the combination is not reached, although \<open>(bf16, cuda)\<close> is in the list of valid
  combinations.
\<close>

theorem C2_bf16:
  assumes "is_json req" and "get_json req = Inr (JObj kv)"
    and "truthy (dict_get kv ''model'' JNull)"
    and "map_of kv ''precision'' = Some (JStr ''bf16'')"
  shows "generate_model env req f =
           (Json (Error (UnsupportedPrecision (JStr ''bf16''))) 400, \<lparr>fs = f, trace = []\<rparr>)
         \<and> (''bf16'', ''cuda'') \<in> set VALID_COMBINATIONS"
  using assms
  by (simp add: generate_model_def validate_object dict_get_def py_in_JStr
        SUPPORTED_PRECISIONS_def VALID_COMBINATIONS_def)

text \<open>
  The request for \<open>gpt2\<close> with \<open>(bf16, cuda)\<close>.
\<close>

theorem C2_bf16_witness:
  "generate_model (stub_env tool_two_files) (gpt2_request ''bf16'' ''cuda'') [] =
           (Json (Error (UnsupportedPrecision (JStr ''bf16''))) 400, \<lparr>fs = [], trace = []\<rparr>)
         \<and> (''bf16'', ''cuda'') \<in> set VALID_COMBINATIONS"
  using C2_bf16 [of "gpt2_request ''bf16'' ''cuda''"
      "[(''model'', JStr ''gpt2''), (''precision'', JStr ''bf16''),
        (''execution_provider'', JStr ''cuda'')]" "stub_env tool_two_files" "[]"]
  by (simp add: gpt2_request_def json_request_def dict_get_def)

text \<open>
  Claim C2 as it is worded holds "with any model". With the empty model the check of the
  model comes first, and the answer is the missing-parameter error, not the
  unsupported-precision error.
\<close>

theorem C2_counterexample:
  "fst (generate_model (stub_env tool_two_files)
          (json_request [(''model'', JStr ''''), (''precision'', JStr ''bf16''),
                         (''execution_provider'', JStr ''cuda'')]) [])
     = Json (Error (Text ''model parameter is required'')) 400
   \<and> fst (generate_model (stub_env tool_two_files)
          (json_request [(''model'', JStr ''''), (''precision'', JStr ''bf16''),
                         (''execution_provider'', JStr ''cuda'')]) [])
     \<noteq> Json (Error (UnsupportedPrecision (JStr ''bf16''))) 400"
  by (simp add: generate_model_def validate_def json_request_def dict_get_def)

subsection \<open>The precision \<open>int8\<close>\<close>

text \<open>
  Claim C3. For every JSON request with a model that is not empty (any value Python takes
  for true, a non-empty string among them), the precision \<open>int8\<close> and an execution provider
  of the supported set (given, or the default \<open>cpu\<close>), the handler answers 400 with the
  invalid-combination error and touches nothing.
\<close>

theorem C3_int8:
  assumes "is_json req" and "get_json req = Inr (JObj kv)"
    and "truthy (dict_get kv ''model'' JNull)"
    and "map_of kv ''precision'' = Some (JStr ''int8'')"
    and "dict_get kv ''execution_provider'' (JStr ''cpu'') = JStr e"
    and "e \<in> set SUPPORTED_EXECUTION_PROVIDERS"
  shows "generate_model env req f =
           (Json (Error (InvalidCombination (JStr ''int8'') (JStr e))) 400,
            \<lparr>fs = f, trace = []\<rparr>)"
  using assms
  by (simp add: generate_model_def validate_object dict_get_def py_in_JStr py_pair_in_JStr
        SUPPORTED_PRECISIONS_def VALID_COMBINATIONS_def)

text \<open>
  The request \<open>{model: "gpt2", precision: "int8", execution_provider: "cpu"}\<close>.
\<close>

theorem C3_int8_witness:
  "generate_model (stub_env tool_two_files) (gpt2_request ''int8'' ''cpu'') [] =
     (Json (Error (InvalidCombination (JStr ''int8'') (JStr ''cpu''))) 400,
      \<lparr>fs = [], trace = []\<rparr>)"
  using C3_int8 [of "gpt2_request ''int8'' ''cpu''"
      "[(''model'', JStr ''gpt2''), (''precision'', JStr ''int8''),
        (''execution_provider'', JStr ''cpu'')]" "''cpu''" "stub_env tool_two_files" "[]"]
  by (simp add: gpt2_request_def json_request_def dict_get_def SUPPORTED_EXECUTION_PROVIDERS_def)

subsection \<open>Answers that an exception replaces\<close>

text \<open>
  Claim C4 says that every valid request whose subprocess does not end within the deadline
  of 1800 seconds is answered with 408 and the timeout message, not with the generic 500.
  The handler chooses that answer (\<open>timeout_response\<close>), but inside the \<open>with\<close> block: here
  the builder outlives the deadline and something it started still writes below the
  temporary directory, the removal of the directory raises, and the request for \<open>gpt2\<close> is
  answered with the generic 500.
\<close>

theorem C4_timeout_cleanup_fails:
  "generate_model ((stub_env tool_timeout)\<lparr>cleanup_error := still_written_to\<rparr>)
     (gpt2_request ''fp32'' ''cpu'') [(''/app/tmp'', Dir)] =
     (Json (Error (InternalServerError (OtherError ''[Errno 39] Directory not empty''))) 500,
      \<lparr>fs = [(''/app/tmp/tmp8k2v_x1q/model_output'', Dir),
             (''/app/tmp/tmp8k2v_x1q/model_output/model.onnx.part'', File),
             (''/app/tmp/tmp8k2v_x1q'', Dir), (''/app/tmp'', Dir)],
       trace = [MkTemp ''/app/tmp/tmp8k2v_x1q'',
                Run [''python'', ''-m'', ''onnxruntime_genai.models.builder'', ''--model'', ''gpt2'',
                     ''--precision'', ''fp32'', ''--execution_provider'', ''cpu'',
                     ''--output'', ''/app/tmp/tmp8k2v_x1q/model_output'']
                    [''PATH'' \<mapsto> ''/usr/bin'', ''HF_HUB_DISABLE_TELEMETRY'' \<mapsto> ''1'',
                     ''TRANSFORMERS_OFFLINE'' \<mapsto> ''0'', ''HF_HUB_OFFLINE'' \<mapsto> ''0'']
                    1800,
                Cleanup ''/app/tmp/tmp8k2v_x1q'']\<rparr>)"
  by (simp add: stub_defs generate_model_def validate_def with_temporary_directory_def job_def
       run_builder_def emit_def child_env_def command_def dict_get_def py_in_def py_pair_in_def
       SUPPORTED_PRECISIONS_def SUPPORTED_EXECUTION_PROVIDERS_def VALID_COMBINATIONS_def
       TEMP_DIR_def os_path_join_def internal_server_error_def Let_def)

text \<open>
  Claim C5 says that every valid request whose subprocess exits with status 0 and whose
  output directory does not exist or has no entry is answered with 500 and "No output
  generated from model conversion". The handler does so when the output is text and the
  path is missing or an empty directory (\<open>empty_output_response\<close>). Here the builder exits 0
  with an empty output directory and the bytes FF FE on its standard output, and then the
  builder exits 0 with a regular file in the place of the directory: both requests are
  answered with the generic 500, the first for \<open>UnicodeDecodeError\<close>, the second for
  \<open>NotADirectoryError\<close>.
\<close>

theorem C5_undecodable_or_file:
  "fst (generate_model (stub_env tool_no_output_bytes) (gpt2_request ''fp32'' ''cpu'')
          [(''/app/tmp'', Dir)])
     = Json (Error (InternalServerError (UnicodeDecodeError [CHR 0xFF, CHR 0xFE]))) 500
   \<and> fst (generate_model (stub_env tool_output_file) (gpt2_request ''fp32'' ''cpu'')
          [(''/app/tmp'', Dir)])
     = Json (Error (InternalServerError
                      (NotADirectoryError ''/app/tmp/tmp8k2v_x1q/model_output''))) 500"
  by (simp add: stub_defs generate_model_def validate_def with_temporary_directory_def job_def
       run_builder_def emit_def child_env_def command_def dict_get_def py_in_def py_pair_in_def
       SUPPORTED_PRECISIONS_def SUPPORTED_EXECUTION_PROVIDERS_def VALID_COMBINATIONS_def
       TEMP_DIR_def os_path_join_def internal_server_error_def path_exists_def listdir_def
       Let_def)

text \<open>
  Claim C6 says that every valid request whose subprocess exits with a status other than 0
  is answered with 500 and a body that carries the standard error and the standard output
  of the subprocess. The handler does so when both are text (\<open>nonzero_exit_response\<close>).
  Here the builder exits with status 1 and the bytes FF FE on its standard error:
  \<open>subprocess.run\<close> raises \<open>UnicodeDecodeError\<close>, and the answer is the generic 500 with no
  details. The builder was started once.
\<close>

theorem C6_undecodable_stderr:
  "generate_model (stub_env tool_exit1_bytes) (gpt2_request ''fp32'' ''cpu'')
     [(''/app/tmp'', Dir)] =
     (Json (Error (InternalServerError (UnicodeDecodeError [CHR 0xFF, CHR 0xFE]))) 500,
      \<lparr>fs = [(''/app/tmp'', Dir)],
       trace = [MkTemp ''/app/tmp/tmp8k2v_x1q'',
                Run [''python'', ''-m'', ''onnxruntime_genai.models.builder'', ''--model'', ''gpt2'',
                     ''--precision'', ''fp32'', ''--execution_provider'', ''cpu'',
                     ''--output'', ''/app/tmp/tmp8k2v_x1q/model_output'']
                    [''PATH'' \<mapsto> ''/usr/bin'', ''HF_HUB_DISABLE_TELEMETRY'' \<mapsto> ''1'',
                     ''TRANSFORMERS_OFFLINE'' \<mapsto> ''0'', ''HF_HUB_OFFLINE'' \<mapsto> ''0'']
                    1800,
                Cleanup ''/app/tmp/tmp8k2v_x1q'']\<rparr>)"
  by (simp add: stub_defs generate_model_def validate_def with_temporary_directory_def job_def
       run_builder_def emit_def child_env_def command_def dict_get_def py_in_def py_pair_in_def
       SUPPORTED_PRECISIONS_def SUPPORTED_EXECUTION_PROVIDERS_def VALID_COMBINATIONS_def
       TEMP_DIR_def os_path_join_def internal_server_error_def rmtree_def within_def
       with_slash_def Let_def)

subsection \<open>The token\<close>

text \<open>
  Claim C7. Two valid requests that differ only in the token make the handler start the
  builder with the same command, the one built from the model, the precision, the execution
  provider and the output path. A token that is present reaches the child as \<open>HF_TOKEN\<close> and
  \<open>HUGGING_FACE_HUB_TOKEN\<close>, the rest of the environment being that of the server; without a
  token the environment sets \<open>HF_HUB_DISABLE_TELEMETRY=1\<close>, \<open>TRANSFORMERS_OFFLINE=0\<close> and
  \<open>HF_HUB_OFFLINE=0\<close> instead.
\<close>

theorem C7_token:
  assumes "validate req1 = Continue (JStr m, JStr p, JStr e, tok1)"
    and "validate req2 = Continue (JStr m, JStr p, JStr e, tok2)"
    and "child_env (os_environ env) tok1 = Inr cenv1"
    and "child_env (os_environ env) tok2 = Inr cenv2"
    and "mkdtemp env TEMP_DIR f = Inr d"
  shows "run_commands (trace (snd (generate_model env req1 f))) =
           [command m p e (os_path_join d ''model_output'')]
       \<and> run_commands (trace (snd (generate_model env req2 f))) =
           run_commands (trace (snd (generate_model env req1 f)))
       \<and> run_envs (trace (snd (generate_model env req1 f))) = [cenv1]
       \<and> (\<forall>t. tok1 = JStr t \<and> t \<noteq> [] \<longrightarrow>
            cenv1 = (os_environ env)(''HF_TOKEN'' \<mapsto> t, ''HUGGING_FACE_HUB_TOKEN'' \<mapsto> t))
       \<and> (\<not> truthy tok1 \<longrightarrow>
            cenv1 = (os_environ env)(''HF_HUB_DISABLE_TELEMETRY'' \<mapsto> ''1'',
                                     ''TRANSFORMERS_OFFLINE'' \<mapsto> ''0'',
                                     ''HF_HUB_OFFLINE'' \<mapsto> ''0''))"
proof -
  have "run_commands (trace (snd (generate_model env req1 f))) =
           [command m p e (os_path_join d ''model_output'')]"
    and "run_commands (trace (snd (generate_model env req2 f))) =
           [command m p e (os_path_join d ''model_output'')]"
    and "run_envs (trace (snd (generate_model env req1 f))) = [cenv1]"
    using assms by (simp_all add: generate_model_runs)
  moreover have "\<forall>t. tok1 = JStr t \<and> t \<noteq> [] \<longrightarrow>
            cenv1 = (os_environ env)(''HF_TOKEN'' \<mapsto> t, ''HUGGING_FACE_HUB_TOKEN'' \<mapsto> t)"
    using assms(3) by (auto simp: child_env_def)
  moreover have "\<not> truthy tok1 \<longrightarrow>
            cenv1 = (os_environ env)(''HF_HUB_DISABLE_TELEMETRY'' \<mapsto> ''1'',
                                     ''TRANSFORMERS_OFFLINE'' \<mapsto> ''0'',
                                     ''HF_HUB_OFFLINE'' \<mapsto> ''0'')"
    using assms(3) by (auto simp: child_env_def)
  ultimately show ?thesis by simp
qed

text \<open>
  The request for \<open>gpt2\<close> with the token \<open>hf_secret\<close> and the same request without a token.
\<close>

theorem C7_token_witness:
  "run_commands (trace (snd (generate_model (stub_env tool_two_files)
      (json_request [(''model'', JStr ''gpt2''), (''token'', JStr ''hf_secret'')])
      [(''/app/tmp'', Dir)])))
     = [[''python'', ''-m'', ''onnxruntime_genai.models.builder'', ''--model'', ''gpt2'',
         ''--precision'', ''fp32'', ''--execution_provider'', ''cpu'',
         ''--output'', ''/app/tmp/tmp8k2v_x1q/model_output'']]
   \<and> run_commands (trace (snd (generate_model (stub_env tool_two_files)
      (json_request [(''model'', JStr ''gpt2'')]) [(''/app/tmp'', Dir)])))
     = [[''python'', ''-m'', ''onnxruntime_genai.models.builder'', ''--model'', ''gpt2'',
         ''--precision'', ''fp32'', ''--execution_provider'', ''cpu'',
         ''--output'', ''/app/tmp/tmp8k2v_x1q/model_output'']]
   \<and> run_envs (trace (snd (generate_model (stub_env tool_two_files)
      (json_request [(''model'', JStr ''gpt2''), (''token'', JStr ''hf_secret'')])
      [(''/app/tmp'', Dir)])))
     = [[''PATH'' \<mapsto> ''/usr/bin'', ''HF_TOKEN'' \<mapsto> ''hf_secret'',
         ''HUGGING_FACE_HUB_TOKEN'' \<mapsto> ''hf_secret'']]
   \<and> run_envs (trace (snd (generate_model (stub_env tool_two_files)
      (json_request [(''model'', JStr ''gpt2'')]) [(''/app/tmp'', Dir)])))
     = [[''PATH'' \<mapsto> ''/usr/bin'', ''HF_HUB_DISABLE_TELEMETRY'' \<mapsto> ''1'',
         ''TRANSFORMERS_OFFLINE'' \<mapsto> ''0'', ''HF_HUB_OFFLINE'' \<mapsto> ''0'']]"
  using
    C7_token [of "json_request [(''model'', JStr ''gpt2''), (''token'', JStr ''hf_secret'')]"
      "''gpt2''" "''fp32''" "''cpu''" "JStr ''hf_secret''"
      "json_request [(''model'', JStr ''gpt2'')]" JNull "stub_env tool_two_files"
      "[''PATH'' \<mapsto> ''/usr/bin'', ''HF_TOKEN'' \<mapsto> ''hf_secret'',
         ''HUGGING_FACE_HUB_TOKEN'' \<mapsto> ''hf_secret'']"
      "[''PATH'' \<mapsto> ''/usr/bin'', ''HF_HUB_DISABLE_TELEMETRY'' \<mapsto> ''1'',
         ''TRANSFORMERS_OFFLINE'' \<mapsto> ''0'', ''HF_HUB_OFFLINE'' \<mapsto> ''0'']"
      "[(''/app/tmp'', Dir)]" "''/app/tmp/tmp8k2v_x1q''"]
    C7_token [of "json_request [(''model'', JStr ''gpt2'')]"
      "''gpt2''" "''fp32''" "''cpu''" JNull
      "json_request [(''model'', JStr ''gpt2''), (''token'', JStr ''hf_secret'')]"
      "JStr ''hf_secret''" "stub_env tool_two_files"
      "[''PATH'' \<mapsto> ''/usr/bin'', ''HF_HUB_DISABLE_TELEMETRY'' \<mapsto> ''1'',
         ''TRANSFORMERS_OFFLINE'' \<mapsto> ''0'', ''HF_HUB_OFFLINE'' \<mapsto> ''0'']"
      "[''PATH'' \<mapsto> ''/usr/bin'', ''HF_TOKEN'' \<mapsto> ''hf_secret'',
         ''HUGGING_FACE_HUB_TOKEN'' \<mapsto> ''hf_secret'']"
      "[(''/app/tmp'', Dir)]" "''/app/tmp/tmp8k2v_x1q''"]
  by (simp add: stub_defs validate_def dict_get_def py_in_def py_pair_in_def SUPPORTED_PRECISIONS_def
       SUPPORTED_EXECUTION_PROVIDERS_def VALID_COMBINATIONS_def child_env_def TEMP_DIR_def
       os_path_join_def command_def)

subsection \<open>The temporary directory\<close>

text \<open>
  Claim C8 says that the temporary directory and all below it are removed when the handler
  returns, on every way out. The handler attempts the removal on every way out, and nothing
  is left when the removal succeeds (\<open>removed_when_cleanup_succeeds\<close>). Here the builder
  outlives the deadline and something it started still writes below the directory: the
  removal raises, and the directory and the partial file are on the disk after the handler
  has returned.
\<close>

theorem C8_directory_left:
  "path_exists (fs (snd (generate_model ((stub_env tool_timeout)\<lparr>cleanup_error := still_written_to\<rparr>)
        (gpt2_request ''fp32'' ''cpu'') [(''/app/tmp'', Dir)]))) ''/app/tmp/tmp8k2v_x1q''
   \<and> path_exists (fs (snd (generate_model ((stub_env tool_timeout)\<lparr>cleanup_error := still_written_to\<rparr>)
        (gpt2_request ''fp32'' ''cpu'') [(''/app/tmp'', Dir)])))
        ''/app/tmp/tmp8k2v_x1q/model_output/model.onnx.part''
   \<and> last (trace (snd (generate_model ((stub_env tool_timeout)\<lparr>cleanup_error := still_written_to\<rparr>)
        (gpt2_request ''fp32'' ''cpu'') [(''/app/tmp'', Dir)]))) = Cleanup ''/app/tmp/tmp8k2v_x1q''"
  by (simp add: stub_defs generate_model_def validate_def with_temporary_directory_def job_def
       run_builder_def emit_def child_env_def command_def dict_get_def py_in_def py_pair_in_def
       SUPPORTED_PRECISIONS_def SUPPORTED_EXECUTION_PROVIDERS_def VALID_COMBINATIONS_def
       TEMP_DIR_def os_path_join_def internal_server_error_def path_exists_def Let_def)

subsection \<open>The attachment\<close>

text \<open>
  Claim C9. Take a valid request whose every step succeeds: the builder exits 0 with text
  on its output, its output directory has an entry, the archive is made and exists,
  \<open>send_file\<close> takes it, and the temporary directory is removed. The answer is the archive
  sent as an attachment, with status 200, under the name made of the model with every \<open>/\<close>
  replaced by \<open>_\<close>, then \<open>_\<close>, the precision, \<open>_\<close>, the execution provider and \<open>.zip\<close>;
  the handler made the directory, ran the builder once, made the archive, sent it and
  removed the directory. The name depends on nothing else: whatever the surroundings do,
  an answer to this request with status 200 is an attachment of that name.
\<close>

theorem C9_attachment_name:
  assumes "validate req = Continue (JStr m, JStr p, JStr e, tok)"
    and "child_env (os_environ env) tok = Inr cenv"
    and "mkdtemp env TEMP_DIR f = Inr d"
    and "name = map (\<lambda>c. if c = CHR ''/'' then CHR ''_'' else c) m @ ''_'' @ p @ ''_'' @ e"
    and "subprocess_run env (command m p e (os_path_join d ''model_output'')) cenv 1800
           ((d, Dir) # f) = (Exited 0 stdout_bytes stderr_bytes, f1)"
    and "decode env stdout_bytes = Some out" and "decode env stderr_bytes = Some err"
    and "listdir f1 (os_path_join d ''model_output'') = Inr (n # ns)"
    and "make_archive env (os_path_join d name) ''zip'' (os_path_join d ''model_output'') f1
           = (Inr (), f2)"
    and "path_exists f2 (os_path_join d name @ ''.zip'')"
    and "send_file env (os_path_join d name @ ''.zip'') f2 = None"
    and "cleanup_error env d f2 = None"
  shows "generate_model env req f =
           (Attachment (os_path_join d name @ ''.zip'') (name @ ''.zip'') ''application/zip'',
            \<lparr>fs = rmtree d f2,
             trace = [MkTemp d,
                      Run (command m p e (os_path_join d ''model_output'')) cenv 1800,
                      MakeArchive (os_path_join d name) ''zip'' (os_path_join d ''model_output''),
                      SendFile (os_path_join d name @ ''.zip'') (name @ ''.zip'')
                        ''application/zip'',
                      Cleanup d]\<rparr>)
       \<and> status (fst (generate_model env req f)) = 200
       \<and> (\<forall>env' f'. status (fst (generate_model env' req f')) = 200 \<longrightarrow>
             (\<exists>path. fst (generate_model env' req f') =
                        Attachment path (name @ ''.zip'') ''application/zip''))"
proof -
  have nm: "archive_name m p e = name"
    using assms(4) by (simp add: archive_name_def replace_slash_def)
  have ex: "path_exists f1 (os_path_join d ''model_output'')"
    using assms(8) by (rule listdir_exists)
  have pk: "package env d (os_path_join d ''model_output'') m p e
              \<lparr>fs = f1, trace = [MkTemp d,
                  Run (command m p e (os_path_join d ''model_output'')) cenv 1800]\<rparr> =
            (Attachment (os_path_join d name @ ''.zip'') (name @ ''.zip'') ''application/zip'',
             \<lparr>fs = f2,
              trace = [MkTemp d,
                       Run (command m p e (os_path_join d ''model_output'')) cenv 1800,
                       MakeArchive (os_path_join d name) ''zip'' (os_path_join d ''model_output''),
                       SendFile (os_path_join d name @ ''.zip'') (name @ ''.zip'')
                         ''application/zip'']\<rparr>)"
    using assms(9-11) by (simp add: package_def nm emit_def Let_def)
  have rb: "run_builder env d (os_path_join d ''model_output'') m p e cenv
              \<lparr>fs = (d, Dir) # f, trace = [MkTemp d]\<rparr> =
            (Inr (Attachment (os_path_join d name @ ''.zip'') (name @ ''.zip'')
                    ''application/zip''),
             \<lparr>fs = f2,
              trace = [MkTemp d,
                       Run (command m p e (os_path_join d ''model_output'')) cenv 1800,
                       MakeArchive (os_path_join d name) ''zip'' (os_path_join d ''model_output''),
                       SendFile (os_path_join d name @ ''.zip'') (name @ ''.zip'')
                         ''application/zip'']\<rparr>)"
    using assms(5-8) ex pk by (simp add: run_builder_def emit_def Let_def)
  have g: "generate_model env req f =
           (Attachment (os_path_join d name @ ''.zip'') (name @ ''.zip'') ''application/zip'',
            \<lparr>fs = rmtree d f2,
             trace = [MkTemp d,
                      Run (command m p e (os_path_join d ''model_output'')) cenv 1800,
                      MakeArchive (os_path_join d name) ''zip'' (os_path_join d ''model_output''),
                      SendFile (os_path_join d name @ ''.zip'') (name @ ''.zip'')
                        ''application/zip'',
                      Cleanup d]\<rparr>)"
    using after_run [OF assms(1-3) rb] assms(12) by simp
  have b: "\<exists>path. fst (generate_model env' req f') =
                     Attachment path (name @ ''.zip'') ''application/zip''"
    if "status (fst (generate_model env' req f')) = 200" for env' f'
    using generate_model_ok [OF assms(1) that] nm by auto
  show ?thesis using g b by simp
qed

text \<open>
  The request \<open>{model: "gpt2", precision: "fp32", execution_provider: "cpu"}\<close> with a
  builder that writes two files: the answer is 200 with the attachment \<open>gpt2_fp32_cpu.zip\<close>.
  The request for \<open>microsoft/phi-2\<close> with \<open>int4\<close>: the attachment is
  \<open>microsoft_phi-2_int4_cpu.zip\<close>.
\<close>

theorem C9_attachment_name_witness:
  "generate_model (stub_env tool_two_files) (gpt2_request ''fp32'' ''cpu'') [(''/app/tmp'', Dir)]
     = (Attachment ''/app/tmp/tmp8k2v_x1q/gpt2_fp32_cpu.zip'' ''gpt2_fp32_cpu.zip''
          ''application/zip'',
        \<lparr>fs = [(''/app/tmp'', Dir)],
         trace = [MkTemp ''/app/tmp/tmp8k2v_x1q'',
                  Run [''python'', ''-m'', ''onnxruntime_genai.models.builder'', ''--model'',
                       ''gpt2'', ''--precision'', ''fp32'', ''--execution_provider'', ''cpu'',
                       ''--output'', ''/app/tmp/tmp8k2v_x1q/model_output'']
                      [''PATH'' \<mapsto> ''/usr/bin'', ''HF_HUB_DISABLE_TELEMETRY'' \<mapsto> ''1'',
                       ''TRANSFORMERS_OFFLINE'' \<mapsto> ''0'', ''HF_HUB_OFFLINE'' \<mapsto> ''0'']
                      1800,
                  MakeArchive ''/app/tmp/tmp8k2v_x1q/gpt2_fp32_cpu'' ''zip''
                    ''/app/tmp/tmp8k2v_x1q/model_output'',
                  SendFile ''/app/tmp/tmp8k2v_x1q/gpt2_fp32_cpu.zip'' ''gpt2_fp32_cpu.zip''
                    ''application/zip'',
                  Cleanup ''/app/tmp/tmp8k2v_x1q'']\<rparr>)
   \<and> status (fst (generate_model (stub_env tool_two_files) (gpt2_request ''fp32'' ''cpu'')
                    [(''/app/tmp'', Dir)])) = 200
   \<and> fst (generate_model (stub_env tool_two_files)
            (json_request [(''model'', JStr ''microsoft/phi-2''), (''precision'', JStr ''int4'')])
            [(''/app/tmp'', Dir)])
     = Attachment ''/app/tmp/tmp8k2v_x1q/microsoft_phi-2_int4_cpu.zip''
         ''microsoft_phi-2_int4_cpu.zip'' ''application/zip''"
proof -
  let ?env = "stub_env tool_two_files"
  let ?cenv = "[''PATH'' \<mapsto> ''/usr/bin'', ''HF_HUB_DISABLE_TELEMETRY'' \<mapsto> ''1'',
                ''TRANSFORMERS_OFFLINE'' \<mapsto> ''0'', ''HF_HUB_OFFLINE'' \<mapsto> ''0'']"
  let ?d = "''/app/tmp/tmp8k2v_x1q''"
  let ?f1 = "[(''/app/tmp/tmp8k2v_x1q/model_output'', Dir),
              (''/app/tmp/tmp8k2v_x1q/model_output/model.onnx'', File),
              (''/app/tmp/tmp8k2v_x1q/model_output/genai_config.json'', File),
              (''/app/tmp/tmp8k2v_x1q'', Dir), (''/app/tmp'', Dir)]"
  have v: "validate (gpt2_request ''fp32'' ''cpu'') =
             Continue (JStr ''gpt2'', JStr ''fp32'', JStr ''cpu'', JNull)"
    "validate (json_request [(''model'', JStr ''microsoft/phi-2''), (''precision'', JStr ''int4'')])
       = Continue (JStr ''microsoft/phi-2'', JStr ''int4'', JStr ''cpu'', JNull)"
    by (simp_all add: gpt2_request_def json_request_def validate_def dict_get_def py_in_def
          py_pair_in_def SUPPORTED_PRECISIONS_def SUPPORTED_EXECUTION_PROVIDERS_def
          VALID_COMBINATIONS_def)
  have c: "child_env (os_environ ?env) JNull = Inr ?cenv"
    by (simp add: child_env_def stub_env_def)
  have d: "mkdtemp ?env TEMP_DIR [(''/app/tmp'', Dir)] = Inr ?d"
    by (simp add: stub_env_def stub_mkdtemp_def TEMP_DIR_def os_path_join_def)
  have n: "''gpt2_fp32_cpu'' =
             map (\<lambda>c. if c = CHR ''/'' then CHR ''_'' else c) ''gpt2'' @ ''_'' @ ''fp32'' @ ''_'' @ ''cpu''"
    "''microsoft_phi-2_int4_cpu'' =
       map (\<lambda>c. if c = CHR ''/'' then CHR ''_'' else c) ''microsoft/phi-2'' @ ''_'' @ ''int4''
         @ ''_'' @ ''cpu''"
    by simp_all
  have r: "subprocess_run ?env (command m p e (os_path_join ?d ''model_output'')) ?cenv 1800
             ((?d, Dir) # [(''/app/tmp'', Dir)]) = (Exited 0 ''done'' [], ?f1)" for m p e
    by (simp add: stub_env_def tool_two_files_def command_def os_path_join_def)
  have t: "decode ?env ''done'' = Some ''done''" "decode ?env [] = Some []"
    by (simp_all add: stub_env_def ascii_text_def)
  have l: "listdir ?f1 (os_path_join ?d ''model_output'') =
             Inr [''/app/tmp/tmp8k2v_x1q/model_output/model.onnx'',
                  ''/app/tmp/tmp8k2v_x1q/model_output/genai_config.json'']"
    by (simp add: listdir_def os_path_join_def is_entry_def with_slash_def)
  have a: "make_archive ?env (os_path_join ?d nm) ''zip'' (os_path_join ?d ''model_output'') ?f1 =
             (Inr (), (os_path_join ?d nm @ ''.zip'', File) # ?f1)" for nm
    by (simp add: stub_env_def stub_make_archive_def)
  have x: "path_exists ((os_path_join ?d nm @ ''.zip'', File) # ?f1) (os_path_join ?d nm @ ''.zip'')"
    for nm by (simp add: path_exists_def)
  have s: "send_file ?env (os_path_join ?d nm @ ''.zip'') ((os_path_join ?d nm @ ''.zip'', File) # ?f1)
             = None" for nm
    by (simp add: stub_env_def)
  have u: "cleanup_error ?env ?d ((os_path_join ?d nm @ ''.zip'', File) # ?f1) = None" for nm
    by (simp add: stub_env_def)
  note g = C9_attachment_name [OF v(1) c d n(1) r t l a x s u]
  note h = C9_attachment_name [OF v(2) c d n(2) r t l a x s u]
  show ?thesis
    using g h by (simp add: os_path_join_def rmtree_def within_def with_slash_def command_def)
qed

subsection \<open>The order of the checks\<close>

text \<open>
  Claim C10. For a request whose body, when its content type is JSON, is a dictionary, the
  validation of the handler is the first failing check of the list content type, model,
  precision, execution provider, combination, and it lets the request through when no check
  fails. The model is only tested for truth: with a valid precision and provider, every
  model that is not empty passes, as it is.
\<close>

theorem C10_precedence:
  assumes "is_json req \<Longrightarrow> get_json req = Inr (JObj kv)"
  shows "validate req =
           (case first_failing_check (checks_in_precedence_order req) of
              Some r \<Rightarrow> Return r
            | None \<Rightarrow> Continue (param req ''model'' JNull, param req ''precision'' (JStr ''fp32''),
                                param req ''execution_provider'' (JStr ''cpu''),
                                param req ''token'' JNull))
       \<and> (is_json req \<and> truthy (param req ''model'' JNull)
            \<and> param req ''precision'' (JStr ''fp32'') = JStr p
            \<and> param req ''execution_provider'' (JStr ''cpu'') = JStr e
            \<and> p \<in> set SUPPORTED_PRECISIONS \<and> e \<in> set SUPPORTED_EXECUTION_PROVIDERS
            \<and> (p, e) \<in> set VALID_COMBINATIONS
          \<longrightarrow> validate req = Continue (param req ''model'' JNull, JStr p, JStr e,
                                        param req ''token'' JNull))"
proof (cases "is_json req")
  case False
  then show ?thesis
    by (simp add: validate_def checks_in_precedence_order_def first_failing_check_Cons Let_def)
next
  case True
  then have b: "get_json req = Inr (JObj kv)" using assms by simp
  have q: "param req k d = dict_get kv k d" for k d
    by (simp add: param_def b)
  show ?thesis
    using True b
    by (simp add: validate_object q checks_in_precedence_order_def first_failing_check_Cons Let_def
          py_in_JStr py_pair_in_JStr)
qed

text \<open>
  Six requests: no model and an unknown precision (the missing-model error), a content
  type that is not JSON, then one request failing at each later check, and last a model of
  no particular format that passes.
\<close>

theorem C10_precedence_witness:
  "validate (json_request [(''precision'', JStr ''fp64''), (''execution_provider'', JStr ''tpu'')])
     = Return (Json (Error (Text ''model parameter is required'')) 400)
   \<and> validate \<lparr>is_json = False, get_json = Inr (JObj [(''precision'', JStr ''fp64'')])\<rparr>
     = Return (Json (Error (Text ''Content-Type must be application/json'')) 400)
   \<and> validate (json_request [(''model'', JStr ''gpt2''), (''precision'', JStr ''fp64''),
                             (''execution_provider'', JStr ''tpu'')])
     = Return (Json (Error (UnsupportedPrecision (JStr ''fp64''))) 400)
   \<and> validate (json_request [(''model'', JStr ''gpt2''), (''precision'', JStr ''fp16''),
                             (''execution_provider'', JStr ''tpu'')])
     = Return (Json (Error (UnsupportedExecutionProvider (JStr ''tpu''))) 400)
   \<and> validate (json_request [(''model'', JStr ''gpt2''), (''precision'', JStr ''fp16''),
                             (''execution_provider'', JStr ''cpu'')])
     = Return (Json (Error (InvalidCombination (JStr ''fp16'') (JStr ''cpu''))) 400)
   \<and> validate (json_request [(''model'', JStr ''../..//x y''), (''precision'', JStr ''fp16''),
                             (''execution_provider'', JStr ''dml'')])
     = Continue (JStr ''../..//x y'', JStr ''fp16'', JStr ''dml'', JNull)"
  using
    C10_precedence [of "json_request [(''precision'', JStr ''fp64''), (''execution_provider'', JStr ''tpu'')]"
      "[(''precision'', JStr ''fp64''), (''execution_provider'', JStr ''tpu'')]" "''fp16''" "''dml''"]
    C10_precedence [of "\<lparr>is_json = False, get_json = Inr (JObj [(''precision'', JStr ''fp64'')])\<rparr>"
      "[]" "''fp16''" "''dml''"]
    C10_precedence [of "json_request [(''model'', JStr ''gpt2''), (''precision'', JStr ''fp64''),
                             (''execution_provider'', JStr ''tpu'')]"
      "[(''model'', JStr ''gpt2''), (''precision'', JStr ''fp64''),
                             (''execution_provider'', JStr ''tpu'')]" "''fp16''" "''dml''"]
    C10_precedence [of "json_request [(''model'', JStr ''gpt2''), (''precision'', JStr ''fp16''),
                             (''execution_provider'', JStr ''tpu'')]"
      "[(''model'', JStr ''gpt2''), (''precision'', JStr ''fp16''),
                             (''execution_provider'', JStr ''tpu'')]" "''fp16''" "''dml''"]
    C10_precedence [of "json_request [(''model'', JStr ''gpt2''), (''precision'', JStr ''fp16''),
                             (''execution_provider'', JStr ''cpu'')]"
      "[(''model'', JStr ''gpt2''), (''precision'', JStr ''fp16''),
                             (''execution_provider'', JStr ''cpu'')]" "''fp16''" "''dml''"]
    C10_precedence [of "json_request [(''model'', JStr ''../..//x y''), (''precision'', JStr ''fp16''),
                             (''execution_provider'', JStr ''dml'')]"
      "[(''model'', JStr ''../..//x y''), (''precision'', JStr ''fp16''),
                             (''execution_provider'', JStr ''dml'')]" "''fp16''" "''dml''"]
  by (simp add: json_request_def param_def dict_get_def checks_in_precedence_order_def
        first_failing_check_Cons py_in_JStr py_pair_in_JStr SUPPORTED_PRECISIONS_def
        SUPPORTED_EXECUTION_PROVIDERS_def VALID_COMBINATIONS_def Let_def)

end
